theory Spec2Isabelle
  imports Complex_Main "HOL-Library.AList" "HOL-Library.Sublist"
begin

section \<open>JavaScript values\<close>

text \<open>
  The option bags of \<^verbatim>\<open>src/builder.js\<close> hold dynamically typed values. A number is an
  IEEE double: a finite (rational) value, NaN or an infinity. A plain object is the list of
  its own enumerable properties, each key once, in enumeration order; a regular expression
  carries its source and a function an identity.
\<close>

datatype jsnum = Finite rat | NaN | PosInfinity | NegInfinity

datatype jsval =
    JUndefined
  | JNull
  | JBool bool
  | JNum jsnum
  | JStr string
  | JRegExp string
  | JFunction nat
  | JArray "jsval list"
  | JObject "(string \<times> jsval) list"

text \<open>ToBoolean: what \<^verbatim>\<open>assert(v)\<close>, \<^verbatim>\<open>!v\<close> and \<^verbatim>\<open>v || d\<close> test.\<close>

fun truthy :: "jsval \<Rightarrow> bool" where
  "truthy JUndefined = False"
| "truthy JNull = False"
| "truthy (JBool b) = b"
| "truthy (JNum n) = (n \<noteq> Finite 0 \<and> n \<noteq> NaN)"
| "truthy (JStr s) = (s \<noteq> [])"
| "truthy (JRegExp r) = True"
| "truthy (JFunction f) = True"
| "truthy (JArray xs) = True"
| "truthy (JObject kvs) = True"

text \<open>\<^verbatim>\<open>a || b\<close>\<close>

definition or_else :: "jsval \<Rightarrow> jsval \<Rightarrow> jsval" where
  "or_else a b = (if truthy a then a else b)"

text \<open>
  The string-valued options (\<^verbatim>\<open>name\<close>, \<^verbatim>\<open>version\<close>, \<^verbatim>\<open>route\<close>, ...) are a string or
  absent; \<open>of_str\<close> is the value \<^verbatim>\<open>options[key]\<close> reads, and \<open>to_string\<close> the string
  a regular expression's \<^verbatim>\<open>test\<close> sees (\<^verbatim>\<open>String(undefined)\<close> for an absent one).
\<close>

definition of_str :: "string option \<Rightarrow> jsval" where
  "of_str v = (case v of None \<Rightarrow> JUndefined | Some s \<Rightarrow> JStr s)"

definition to_string :: "string option \<Rightarrow> string" where
  "to_string v = (case v of None \<Rightarrow> ''undefined'' | Some s \<Rightarrow> s)"

text \<open>\<^verbatim>\<open>typeof v === 'number'\<close>, \<^verbatim>\<open>v instanceof RegExp\<close>, \<^verbatim>\<open>v instanceof Function\<close>.\<close>

fun is_number :: "jsval \<Rightarrow> bool" where
  "is_number (JNum n) = True"
| "is_number v = False"

fun instanceof_RegExp :: "jsval \<Rightarrow> bool" where
  "instanceof_RegExp (JRegExp r) = True"
| "instanceof_RegExp v = False"

fun instanceof_Function :: "jsval \<Rightarrow> bool" where
  "instanceof_Function (JFunction f) = True"
| "instanceof_Function v = False"

text \<open>An integer-valued number, the "int" the constructor's message speaks of.\<close>

fun is_integer :: "jsval \<Rightarrow> bool" where
  "is_integer (JNum (Finite r)) = (of_int \<lfloor>r\<rfloor> = r)"
| "is_integer v = False"

subsection \<open>Character classes\<close>

definition in_range :: "char \<Rightarrow> char \<Rightarrow> char \<Rightarrow> bool" where
  "in_range lo hi c = ((of_char lo :: nat) \<le> of_char c \<and> (of_char c :: nat) \<le> of_char hi)"

subsection \<open>Properties\<close>

text \<open>
  A property list holds the own enumerable properties of a plain object in the order
  JavaScript enumerates them: the keys that are array indices (canonical decimal numerals
  below \<open>2\<^sup>3\<^sup>2 - 1\<close>) in ascending order, then the other keys in the order of their
  creation. \<open>get\<close> is \<^verbatim>\<open>obj[key]\<close>; \<open>put\<close> is \<^verbatim>\<open>obj[key] = v\<close>, which overwrites a
  property in place and creates a new one at its place in that order.
\<close>

type_synonym props = "(string \<times> jsval) list"

definition get :: "props \<Rightarrow> string \<Rightarrow> jsval" where
  "get obj k = (case map_of obj k of None \<Rightarrow> JUndefined | Some v \<Rightarrow> v)"

definition index_value :: "string \<Rightarrow> int" where
  "index_value k = foldl (\<lambda>n c. 10 * n + (of_char c - 48)) 0 k"

definition is_array_index :: "string \<Rightarrow> bool" where
  "is_array_index k \<longleftrightarrow>
     k \<noteq> [] \<and> list_all (in_range CHR ''0'' CHR ''9'') k \<and>
     (k = ''0'' \<or> hd k \<noteq> CHR ''0'') \<and> index_value k < 4294967295"

fun insert_new :: "string \<Rightarrow> jsval \<Rightarrow> props \<Rightarrow> props" where
  "insert_new k v [] = [(k, v)]"
| "insert_new k v ((k', v') # ps) =
     (if is_array_index k \<and> (\<not> is_array_index k' \<or> index_value k < index_value k')
      then (k, v) # (k', v') # ps
      else (k', v') # insert_new k v ps)"

definition put :: "string \<Rightarrow> jsval \<Rightarrow> props \<Rightarrow> props" where
  "put k v obj = (if map_of obj k = None then insert_new k v obj else AList.update k v obj)"

text \<open>Decimal digits of an array index, the key of an array element.\<close>

fun show_nat :: "nat \<Rightarrow> string" where
  "show_nat n =
     (if n < 10 then [char_of (48 + n)]
      else show_nat (n div 10) @ [char_of (48 + n mod 10)])"

declare show_nat.simps [simp del]

text \<open>
  lodash's \<^verbatim>\<open>keysIn(source)\<close> with the values \<^verbatim>\<open>source[key]\<close>, as \<^verbatim>\<open>_.defaults\<close> reads
  a source: the properties of a plain object, the indexed elements of an array and the
  indexed characters of a string; a number, a boolean, a regular expression, a function,
  \<^verbatim>\<open>null\<close> and \<^verbatim>\<open>undefined\<close> have none.
\<close>

fun keysIn :: "jsval \<Rightarrow> props" where
  "keysIn (JObject kvs) = kvs"
| "keysIn (JArray xs) = zip (map show_nat [0..<length xs]) xs"
| "keysIn (JStr s) = zip (map show_nat [0..<length s]) (map (\<lambda>c. JStr [c]) s)"
| "keysIn v = []"

text \<open>
  \<^verbatim>\<open>_.defaults(object, ...sources)\<close>: for each source in turn and each key of it, assign
  \<^verbatim>\<open>source[key]\<close> where \<^verbatim>\<open>object[key]\<close> is still \<^verbatim>\<open>undefined\<close>. The key
  \<^verbatim>\<open>__proto__\<close> is never assigned: \<^verbatim>\<open>object['__proto__']\<close> reads the prototype, which is
  not \<^verbatim>\<open>undefined\<close>.
\<close>

fun defaults_from :: "props \<Rightarrow> props \<Rightarrow> string list \<Rightarrow> props" where
  "defaults_from obj src [] = obj"
| "defaults_from obj src (k # ks) =
     defaults_from
       (if k \<noteq> ''__proto__'' \<and> get obj k = JUndefined then put k (get src k) obj else obj)
       src ks"

definition defaults :: "props \<Rightarrow> jsval list \<Rightarrow> props" where
  "defaults obj sources =
     foldl (\<lambda>acc source. defaults_from acc (keysIn source) (map fst (keysIn source))) obj sources"

text \<open>
  lodash's \<^verbatim>\<open>isLength\<close> and \<^verbatim>\<open>isArrayLike\<close> on a plain object: its \<^verbatim>\<open>length\<close> is a
  number that is an integer from 0 to \<open>2\<^sup>5\<^sup>3 - 1\<close>.
\<close>

fun isLength :: "jsval \<Rightarrow> bool" where
  "isLength (JNum (Finite r)) = (- 1 < r \<and> of_int \<lfloor>r\<rfloor> = r \<and> r \<le> 9007199254740991)"
| "isLength v = False"

fun length_of :: "jsval \<Rightarrow> nat" where
  "length_of (JNum (Finite r)) = nat \<lfloor>r\<rfloor>"
| "length_of v = 0"

text \<open>
  The pairs \<^verbatim>\<open>(value, key)\<close> that \<^verbatim>\<open>_.forEach(collection, iteratee)\<close> hands to the
  iteratee, in order. An array and a string are walked by index. So is a plain object that is
  array-like: the indices below its \<^verbatim>\<open>length\<close> are read, whether the object has them or
  not, and its other properties are not visited. Any other plain object is walked by its own
  keys. The remaining values have nothing to visit.
\<close>

fun forEach_pairs :: "jsval \<Rightarrow> props" where
  "forEach_pairs (JObject kvs) =
     (if isLength (get kvs ''length'')
      then map (\<lambda>i. (show_nat i, get kvs (show_nat i))) [0..<length_of (get kvs ''length'')]
      else kvs)"
| "forEach_pairs (JArray xs) = zip (map show_nat [0..<length xs]) xs"
| "forEach_pairs (JStr s) = zip (map show_nat [0..<length s]) (map (\<lambda>c. JStr [c]) s)"
| "forEach_pairs v = []"

subsection \<open>Regular expressions\<close>

text \<open>\<^verbatim>\<open>/^[a-z][a-z0-9_-]*$/\<close> (no flags: \<^verbatim>\<open>$\<close> is the end of the input)\<close>

definition name_re :: "string \<Rightarrow> bool" where
  "name_re s =
     (case s of
        [] \<Rightarrow> False
      | c # cs \<Rightarrow> in_range CHR ''a'' CHR ''z'' c \<and>
          list_all (\<lambda>d. in_range CHR ''a'' CHR ''z'' d \<or> in_range CHR ''0'' CHR ''9'' d \<or>
                         d = CHR ''_'' \<or> d = CHR ''-'') cs)"

text \<open>\<^verbatim>\<open>/^v[0-9]+$/\<close>\<close>

definition version_re :: "string \<Rightarrow> bool" where
  "version_re s =
     (case s of
        [] \<Rightarrow> False
      | c # cs \<Rightarrow> c = CHR ''v'' \<and> cs \<noteq> [] \<and> list_all (in_range CHR ''0'' CHR ''9'') cs)"

text \<open>
  The pattern \<^verbatim>\<open>[A-Z][A-Za-z0-9]*\<close> matched against a whole string, and
  \<^verbatim>\<open>/[A-Z][A-Za-z0-9]*/.test(key)\<close> as the constructor writes it, with no anchors: some
  substring of the key matches the pattern.
\<close>

definition error_code_pattern :: "string \<Rightarrow> bool" where
  "error_code_pattern s =
     (case s of
        [] \<Rightarrow> False
      | c # cs \<Rightarrow> in_range CHR ''A'' CHR ''Z'' c \<and>
          list_all (\<lambda>d. in_range CHR ''A'' CHR ''Z'' d \<or> in_range CHR ''a'' CHR ''z'' d \<or>
                         in_range CHR ''0'' CHR ''9'' d) cs)"

definition substrings :: "string \<Rightarrow> string list" where
  "substrings s = concat (map prefixes (suffixes s))"

definition error_code_re :: "string \<Rightarrow> bool" where
  "error_code_re key = list_ex error_code_pattern (substrings key)"

section \<open>The builder\<close>

text \<open>
  Record fields are global names, so the fields that the constructor's options, the builder
  and a declared entry have in common live in one base record, and the source's names serve
  all three. The options that the source documents as strings (title, description, name,
  version, method, route) are a string or absent, \<open>None\<close> being \<^verbatim>\<open>undefined\<close>; the
  other options are any value. The field \<open>apiContext\<close> is the source's \<^verbatim>\<open>context\<close>, a
  reserved word here.
\<close>

record named =
  title :: "string option"
  description :: "string option"
  name :: "string option"
  params :: jsval

record api = named +
  version :: "string option"
  apiContext :: jsval
  errorCodes :: jsval

text \<open>The argument of \<^verbatim>\<open>new APIBuilder(options)\<close>.\<close>

record api_options = api +
  schemaPrefix :: jsval

text \<open>
  Objects handed to \<^verbatim>\<open>declare\<close> are kept by reference: the builder's \<^verbatim>\<open>entries\<close>
  array holds addresses, and a store maps each address to the object's current fields.
\<close>

type_synonym addr = nat

record builder = api +
  entries :: "addr list"

record entry = named +
  "method" :: "string option"
  route :: "string option"
  stability :: jsval
  query :: jsval
  deferAuth :: jsval
  scopes :: jsval
  handler :: jsval

type_synonym 'a store = "addr \<Rightarrow> 'a entry_scheme"

text \<open>Every \<^verbatim>\<open>assert\<close> and \<^verbatim>\<open>throw\<close> of the file, by place.\<close>

datatype error =
    SchemaPrefixNotAllowed
  | OptionMissing string
  | InvalidApiName string
  | InvalidApiVersion string
  | InvalidErrorCode string
  | StatusCodeNotInt
  | InvalidStability
  | InvalidQueryValidator string
  | DeferAuthDeprecated
  | InvalidScopeTemplate jsval
  | IdenticalRouteMethod
  | AlreadyDeclared

text \<open>
  \<^verbatim>\<open>[k1, k2, ...].forEach(key => assert(options[key], ...))\<close>: the first key whose value
  is falsy.
\<close>

fun first_missing :: "props \<Rightarrow> string option" where
  "first_missing [] = None"
| "first_missing ((key, v) # rest) = (if truthy v then first_missing rest else Some key)"

text \<open>
  The iteratee of the loop over the merged \<^verbatim>\<open>errorCodes\<close> (lines 40 to 43), run on the
  pairs that \<^verbatim>\<open>_.forEach\<close> visits.
\<close>

fun check_error_codes :: "props \<Rightarrow> error option" where
  "check_error_codes [] = None"
| "check_error_codes ((key, v) # rest) =
     (if \<not> error_code_re key then Some (InvalidErrorCode key)
      else if \<not> is_number v then Some StatusCodeNotInt
      else check_error_codes rest)"

definition default_to :: "jsval \<Rightarrow> jsval \<Rightarrow> jsval" where
  "default_to v d = (if v = JUndefined then d else v)"

text \<open>
  The constructor. \<open>ERROR_CODES\<close> is the table of \<^verbatim>\<open>./errors\<close>, a parameter here.
  The outer \<^verbatim>\<open>_.defaults\<close> builds a fresh object: \<^verbatim>\<open>errorCodes\<close> is the merged table,
  every other option is the caller's, and \<^verbatim>\<open>params\<close> and \<^verbatim>\<open>context\<close> get their empty
  default where the caller's are \<^verbatim>\<open>undefined\<close>.
\<close>

definition APIBuilder :: "jsval \<Rightarrow> api_options \<Rightarrow> error + builder" where
  "APIBuilder ERROR_CODES options =
     (if truthy (schemaPrefix options) then Inl SchemaPrefixNotAllowed
      else case first_missing
                  [(''title'', of_str (title options)),
                   (''description'', of_str (description options)),
                   (''name'', of_str (name options)),
                   (''version'', of_str (version options))] of
        Some key \<Rightarrow> Inl (OptionMissing key)
      | None \<Rightarrow>
        if \<not> name_re (to_string (name options))
          then Inl (InvalidApiName (to_string (name options)))
        else if \<not> version_re (to_string (version options))
          then Inl (InvalidApiVersion (to_string (version options)))
        else
          let options' = options
                \<lparr>errorCodes := JObject (defaults []
                                 [or_else (errorCodes options) (JObject []), ERROR_CODES]),
                 params := default_to (params options) (JObject []),
                 apiContext := default_to (apiContext options) (JArray [])\<rparr>
          in (case check_error_codes (forEach_pairs (errorCodes options')) of
                Some e \<Rightarrow> Inl e
              | None \<Rightarrow>
                Inr \<lparr>title = title options', description = description options',
                     name = name options', params = params options',
                     version = version options', apiContext = apiContext options',
                     errorCodes = errorCodes options', entries = []\<rparr>))"

section \<open>Stability levels\<close>

definition deprecated :: jsval where
  "deprecated = JStr ''deprecated''"

definition experimental :: jsval where
  "experimental = JStr ''experimental''"

definition stable :: jsval where
  "stable = JStr ''stable''"

definition STABILITY_LEVELS :: "jsval list" where
  "STABILITY_LEVELS = [deprecated, experimental, stable]"

section \<open>Declaring an entry\<close>

text \<open>
  The iteratee of the loop over \<^verbatim>\<open>options.query\<close> (lines 156 to 160), run on the pairs
  that \<^verbatim>\<open>_.forEach\<close> visits.
\<close>

fun check_query :: "props \<Rightarrow> error option" where
  "check_query [] = None"
| "check_query ((key, v) # rest) =
     (if \<not> (instanceof_RegExp v \<or> instanceof_Function v) then Some (InvalidQueryValidator key)
      else check_query rest)"

text \<open>
  The four writes to the caller's object: the default stability (lines 148 to 150), the
  merged \<^verbatim>\<open>params\<close> with the builder's as fall-back (line 154), the default
  \<^verbatim>\<open>query\<close> (line 155) and the handler (line 166).
\<close>

definition default_stability :: "'a entry_scheme \<Rightarrow> 'a entry_scheme" where
  "default_stability e = (if \<not> truthy (stability e) then e\<lparr>stability := experimental\<rparr> else e)"

definition merge_params :: "builder \<Rightarrow> 'a entry_scheme \<Rightarrow> 'a entry_scheme" where
  "merge_params this e =
     e\<lparr>params := JObject (defaults [] [or_else (params e) (JObject []), params this])\<rparr>"

definition default_query :: "'a entry_scheme \<Rightarrow> 'a entry_scheme" where
  "default_query e = e\<lparr>query := or_else (query e) (JObject [])\<rparr>"

definition attach_handler :: "jsval \<Rightarrow> 'a entry_scheme \<Rightarrow> 'a entry_scheme" where
  "attach_handler h e = e\<lparr>handler := h\<rparr>"

text \<open>
  \<^verbatim>\<open>APIBuilder.prototype.declare\<close> (\<open>declare\<close> alone is a reserved word here).
  \<open>validate\<close> is \<^verbatim>\<open>ScopeExpressionTemplate.validate\<close> of \<^verbatim>\<open>./expressions\<close>, a
  parameter. \<open>options\<close> is the address of the caller's object; the writes to it happen in
  the store, also on the paths that throw afterwards. The result is the error thrown (if
  any), the builder and the store after the call.
  \<^verbatim>\<open>indexOf\<close> compares with \<^verbatim>\<open>===\<close>, which on the three level strings is equality of
  values; route, method and name are strings or absent, where \<^verbatim>\<open>==\<close> and \<^verbatim>\<open>===\<close> are
  equality too.
\<close>

definition declare_entry ::
  "(jsval \<Rightarrow> bool) \<Rightarrow> builder \<Rightarrow> 'a store \<Rightarrow> addr \<Rightarrow> jsval \<Rightarrow> error option \<times> builder \<times> 'a store" where
  "declare_entry validate this s options handler' =
     (case first_missing
             [(''name'', of_str (name (s options))),
              (''method'', of_str (method (s options))),
              (''route'', of_str (route (s options))),
              (''title'', of_str (title (s options))),
              (''description'', of_str (description (s options)))] of
        Some key \<Rightarrow> (Some (OptionMissing key), this, s)
      | None \<Rightarrow>
        let s1 = s(options := default_stability (s options))
        in if stability (s1 options) \<notin> set STABILITY_LEVELS then (Some InvalidStability, this, s1)
        else
          let s2 = s1(options := merge_params this (s1 options));
              s3 = s2(options := default_query (s2 options))
          in (case check_query (forEach_pairs (query (s3 options))) of
               Some e \<Rightarrow> (Some e, this, s3)
             | None \<Rightarrow>
               if truthy (deferAuth (s3 options)) then (Some DeferAuthDeprecated, this, s3)
               else if truthy (scopes (s3 options)) \<and> \<not> validate (scopes (s3 options))
                 then (Some (InvalidScopeTemplate (scopes (s3 options))), this, s3)
               else
                 let s4 = s3(options := attach_handler handler' (s3 options))
                 in if length (filter (\<lambda>entry. route (s4 entry) = route (s4 options) \<and>
                                               method (s4 entry) = method (s4 options))
                                      (entries this)) > 0
                      then (Some IdenticalRouteMethod, this, s4)
                    else if list_ex (\<lambda>entry. name (s4 entry) = name (s4 options)) (entries this)
                      then (Some AlreadyDeclared, this, s4)
                    else (None, this\<lparr>entries := entries this @ [options]\<rparr>, s4)))"

text \<open>The three parts of the result of \<open>declare_entry\<close>.\<close>

definition thrown :: "error option \<times> builder \<times> 'a store \<Rightarrow> error option" where
  "thrown r = fst r"

definition builder_after :: "error option \<times> builder \<times> 'a store \<Rightarrow> builder" where
  "builder_after r = fst (snd r)"

definition store_after :: "error option \<times> builder \<times> 'a store \<Rightarrow> 'a store" where
  "store_after r = snd (snd r)"

text \<open>Reading the registry: the entry at a position, through the store.\<close>

definition entry_at :: "builder \<Rightarrow> 'a store \<Rightarrow> nat \<Rightarrow> 'a entry_scheme" where
  "entry_at this s i = s (entries this ! i)"

section \<open>Building the service\<close>

text \<open>
  A promise, by how it ends: fulfilled with a value, rejected with a cause, or never
  settled. \<^verbatim>\<open>await p\<close> in an async function goes on with the value once \<open>p\<close> is fulfilled;
  a rejected \<open>p\<close> rejects the function's own promise with the same cause, and while \<open>p\<close>
  is pending the function's promise is pending.
\<close>

datatype ('a, 'e) promise = Fulfilled 'a | Rejected 'e | Pending

definition await :: "('a, 'e) promise \<Rightarrow> ('a \<Rightarrow> ('b, 'e) promise) \<Rightarrow> ('b, 'e) promise" where
  "await p k = (case p of Fulfilled v \<Rightarrow> k v | Rejected e \<Rightarrow> Rejected e | Pending \<Rightarrow> Pending)"

record build_options =
  publish :: jsval
  api :: "builder option"

text \<open>
  \<^verbatim>\<open>APIBuilder.prototype.build\<close>. The class \<^verbatim>\<open>API\<close> of \<^verbatim>\<open>./api\<close> is a parameter:
  \<open>new_API\<close> is its constructor, which returns the service or throws, and
  \<open>service_publish\<close> the promise that \<^verbatim>\<open>service.publish()\<close> gives (rejected also when
  the call itself throws). The result is the promise of the async function and the services
  whose \<^verbatim>\<open>publish\<close> was called, in call order.
\<close>

definition build ::
  "('o build_options_scheme \<Rightarrow> 'e + 'svc) \<Rightarrow> ('svc \<Rightarrow> (unit, 'e) promise) \<Rightarrow>
   builder \<Rightarrow> 'o build_options_scheme \<Rightarrow> ('svc, 'e) promise \<times> 'svc list" where
  "build new_API service_publish this options =
     (let options' = options\<lparr>api := Some this\<rparr>
      in (case new_API options' of
            Inl e \<Rightarrow> (Rejected e, [])
          | Inr service \<Rightarrow>
            if truthy (publish options')
              then (await (service_publish service) (\<lambda>_. Fulfilled service), [service])
            else (Fulfilled service, [])))"

section \<open>The checks of a declaration, and sample data\<close>

text \<open>
  All the conditions under which \<open>declare_entry\<close> reaches its last line, read from the
  store before the call.
\<close>

definition declare_checks :: "(jsval \<Rightarrow> bool) \<Rightarrow> builder \<Rightarrow> 'a store \<Rightarrow> addr \<Rightarrow> bool" where
  "declare_checks validate this s options \<longleftrightarrow>
     first_missing
       [(''name'', of_str (name (s options))),
        (''method'', of_str (method (s options))),
        (''route'', of_str (route (s options))),
        (''title'', of_str (title (s options))),
        (''description'', of_str (description (s options)))] = None
     \<and> stability (default_stability (s options)) \<in> set STABILITY_LEVELS
     \<and> check_query (forEach_pairs (or_else (query (s options)) (JObject []))) = None
     \<and> \<not> truthy (deferAuth (s options))
     \<and> \<not> (truthy (scopes (s options)) \<and> \<not> validate (scopes (s options)))
     \<and> \<not> list_ex (\<lambda>entry. route (s entry) = route (s options) \<and>
                           method (s entry) = method (s options)) (entries this)
     \<and> \<not> list_ex (\<lambda>entry. name (s entry) = name (s options)) (entries this)"

text \<open>
  A builder for a widget service and a store of option objects: a well-formed entry at
  address 0 and, at the addresses after it, variations of it (another name, another route, an
  empty and an unknown stability, a query validator that is a string, the same with a
  \<^verbatim>\<open>length\<close> of 0 beside it, and an entry with parameters, stability and query of its
  own).
\<close>

definition blank :: entry where
  "blank = \<lparr>title = None, description = None, name = None, params = JUndefined,
     method = None, route = None, stability = JUndefined, query = JUndefined,
     deferAuth = JUndefined, scopes = JUndefined, handler = JUndefined\<rparr>"

definition get_widget :: entry where
  "get_widget = blank\<lparr>title := Some ''Get widget'', description := Some ''Fetch one widget'',
     name := Some ''getWidget'', method := Some ''get'', route := Some ''/widgets/:id''\<rparr>"

definition widget_store :: "unit store" where
  "widget_store = (\<lambda>a. blank)
     (0 := get_widget,
      1 := get_widget\<lparr>name := Some ''getWidgetAgain''\<rparr>,
      2 := get_widget\<lparr>route := Some ''/gadgets/:id''\<rparr>,
      3 := get_widget\<lparr>stability := JStr ''''\<rparr>,
      4 := get_widget\<lparr>stability := JStr ''beta''\<rparr>,
      5 := get_widget\<lparr>query := JObject [(''limit'', JStr ''not-a-function-or-regex'')]\<rparr>,
      6 := get_widget\<lparr>query := JObject [(''length'', JNum (Finite 0)),
                                           (''limit'', JStr ''not-a-function-or-regex'')]\<rparr>,
      7 := get_widget\<lparr>params := JObject [(''slug'', JRegExp ''^[a-z-]+$''),
                                            (''id'', JRegExp ''^[a-f0-9]+$'')],
                       stability := JStr ''stable'',
                       query := JObject [(''offset'', JRegExp ''^[0-9]+$'')]\<rparr>)"

definition widgets_api :: builder where
  "widgets_api = \<lparr>title = Some ''Widgets'', description = Some ''The widget service'',
     name = Some ''widgets'',
     params = JObject [(''id'', JRegExp ''^[0-9]+$''), (''page'', JRegExp ''^[1-9][0-9]*$'')],
     version = Some ''v1'', apiContext = JArray [], errorCodes = JObject [], entries = []\<rparr>"

definition accept :: "jsval \<Rightarrow> bool" where
  "accept v = True"

text \<open>The first declaration: the entry at address 0, on the empty registry.\<close>

definition first_call :: "error option \<times> builder \<times> unit store" where
  "first_call = declare_entry accept widgets_api widget_store 0 (JFunction 0)"

text \<open>
  Options for the constructor, and a table of the shape of \<^verbatim>\<open>errors.ERROR_CODES\<close>.
  \<open>lenient_options\<close> adds two error codes of its own: a key that is not an identifier and
  a status that is not an integer.
\<close>

definition widgets_options :: api_options where
  "widgets_options = \<lparr>title = Some ''Widgets'', description = Some ''The widget service'',
     name = Some ''widgets'', params = JUndefined, version = Some ''v1'',
     apiContext = JUndefined, errorCodes = JUndefined, schemaPrefix = JUndefined\<rparr>"

definition sample_ERROR_CODES :: jsval where
  "sample_ERROR_CODES = JObject
     [(''InputError'', JNum (Finite 400)), (''ResourceNotFound'', JNum (Finite 404))]"

definition lenient_options :: api_options where
  "lenient_options = widgets_options
     \<lparr>errorCodes := JObject [(''bad key-X'', JNum (Finite 400)),
                              (''Teapot'', JNum (Finite (837 / 2)))]\<rparr>"

text \<open>The two parts of the result of \<open>build\<close>.\<close>

definition result_of :: "('svc, 'e) promise \<times> 'svc list \<Rightarrow> ('svc, 'e) promise" where
  "result_of r = fst r"

definition publish_calls :: "('svc, 'e) promise \<times> 'svc list \<Rightarrow> 'svc list" where
  "publish_calls r = snd r"

text \<open>
  A service constructor that returns its options as the service, and two ways for
  \<^verbatim>\<open>publish\<close> to end.
\<close>

definition options_as_service :: "build_options \<Rightarrow> string + build_options" where
  "options_as_service options = Inr options"

definition publish_fulfils :: "build_options \<Rightarrow> (unit, string) promise" where
  "publish_fulfils service = Fulfilled ()"

definition publish_rejects :: "build_options \<Rightarrow> (unit, string) promise" where
  "publish_rejects service = Rejected ''AccessDenied''"

section \<open>Facts about the model\<close>

lemmas proj_defs = thrown_def builder_after_def store_after_def

lemmas sample_defs = widget_store_def get_widget_def blank_def widgets_api_def accept_def

lemma default_stability_fields [simp]:
  "route (default_stability e) = route e" "method (default_stability e) = method e"
  "name (default_stability e) = name e" "params (default_stability e) = params e"
  "query (default_stability e) = query e" "deferAuth (default_stability e) = deferAuth e"
  "scopes (default_stability e) = scopes e"
  by (simp_all add: default_stability_def)

lemma merge_params_fields [simp]:
  "route (merge_params b e) = route e" "method (merge_params b e) = method e"
  "name (merge_params b e) = name e" "stability (merge_params b e) = stability e"
  "query (merge_params b e) = query e" "deferAuth (merge_params b e) = deferAuth e"
  "scopes (merge_params b e) = scopes e"
  by (simp_all add: merge_params_def)

lemma default_query_fields [simp]:
  "route (default_query e) = route e" "method (default_query e) = method e"
  "name (default_query e) = name e" "stability (default_query e) = stability e"
  "params (default_query e) = params e" "deferAuth (default_query e) = deferAuth e"
  "scopes (default_query e) = scopes e"
  by (simp_all add: default_query_def)

lemma attach_handler_fields [simp]:
  "route (attach_handler h e) = route e" "method (attach_handler h e) = method e"
  "name (attach_handler h e) = name e" "stability (attach_handler h e) = stability e"
  "params (attach_handler h e) = params e" "query (attach_handler h e) = query e"
  "handler (attach_handler h e) = h"
  by (simp_all add: attach_handler_def)

lemma stability_default_stability:
  "stability (default_stability e) = (if truthy (stability e) then stability e else experimental)"
  by (simp add: default_stability_def)

lemma query_default_query: "query (default_query e) = or_else (query e) (JObject [])"
  by (simp add: default_query_def)

lemma get_Nil [simp]: "get [] k = JUndefined"
  by (simp add: get_def)

text \<open>Reading after writing, and what \<^verbatim>\<open>_.defaults\<close> leaves at each key.\<close>

lemma map_of_insert_new:
  "map_of ps k = None \<Longrightarrow> map_of (insert_new k v ps) = (map_of ps)(k \<mapsto> v)"
  by (induction ps) (auto split: if_splits)

lemma get_put: "get (put k v obj) k' = (if k' = k then v else get obj k')"
  by (simp add: get_def put_def map_of_insert_new update_conv')

lemma insert_new_append: "\<not> is_array_index k \<Longrightarrow> insert_new k v ps = ps @ [(k, v)]"
  by (induction ps) auto

lemma not_index_letter: "\<not> in_range CHR ''0'' CHR ''9'' c \<Longrightarrow> \<not> is_array_index (c # cs)"
  by (simp add: is_array_index_def)

lemma put_new_name:
  "\<not> in_range CHR ''0'' CHR ''9'' c \<Longrightarrow> map_of obj (c # cs) = None \<Longrightarrow>
   put (c # cs) v obj = obj @ [(c # cs, v)]"
  by (simp add: put_def insert_new_append not_index_letter)

lemma get_defaults_from:
  "get (defaults_from obj src ks) k =
     (if k \<in> set ks \<and> k \<noteq> ''__proto__'' \<and> get obj k = JUndefined then get src k
      else get obj k)"
  by (induction ks arbitrary: obj) (auto simp: get_put)

lemma get_absent_key: "k \<notin> fst ` set ps \<Longrightarrow> get ps k = JUndefined"
  by (auto simp: get_def split: option.splits dest: map_of_SomeD intro: rev_image_eqI)

lemma get_defaults:
  "get (defaults [] [own, fallback]) k =
     (if k = ''__proto__'' then JUndefined
      else if get (keysIn own) k \<noteq> JUndefined then get (keysIn own) k
      else get (keysIn fallback) k)"
  using get_absent_key[of k "keysIn own"] get_absent_key[of k "keysIn fallback"]
  by (auto simp: defaults_def get_defaults_from)

lemma check_query_None:
  "check_query kvs = None \<longleftrightarrow> (\<forall>(k, v) \<in> set kvs. instanceof_RegExp v \<or> instanceof_Function v)"
  by (induction kvs) (auto split: if_splits)

lemma experimental_level: "experimental \<in> set STABILITY_LEVELS"
  by (simp add: STABILITY_LEVELS_def)

text \<open>
  A write to the caller's object that keeps its route, method and name keeps them for every
  entry read through the store, also when the object is itself a registered entry.
\<close>

lemma store_write_fields:
  "route e = route (s a) \<Longrightarrow> route ((s(a := e)) b) = route (s b)"
  "method e = method (s a) \<Longrightarrow> method ((s(a := e)) b) = method (s b)"
  "name e = name (s a) \<Longrightarrow> name ((s(a := e)) b) = name (s b)"
  by simp_all

text \<open>The two ways a declaration ends, and what it leaves alone.\<close>

lemma declare_entry_accepts:
  "declare_checks validate this s options \<Longrightarrow>
   declare_entry validate this s options h =
     (None, this\<lparr>entries := entries this @ [options]\<rparr>,
      s(options := attach_handler h (default_query (merge_params this (default_stability (s options))))))"
  by (simp add: declare_checks_def declare_entry_def Let_def store_write_fields filter_empty_conv
        list_ex_iff query_default_query fun_upd_same
        del: first_missing.simps fun_upd_apply split: option.splits)

lemma declare_entry_rejects:
  "\<not> declare_checks validate this s options \<Longrightarrow>
   thrown (declare_entry validate this s options h) \<noteq> None \<and>
   builder_after (declare_entry validate this s options h) = this"
  by (auto simp: declare_checks_def declare_entry_def proj_defs Let_def store_write_fields filter_empty_conv
        list_ex_iff query_default_query fun_upd_same
        simp del: first_missing.simps fun_upd_apply split: option.splits)

lemma declare_entry_frame:
  "a \<noteq> options \<Longrightarrow> store_after (declare_entry validate this s options h) a = s a"
  by (simp add: declare_entry_def proj_defs Let_def
        del: first_missing.simps split: option.splits)

text \<open>The sample declaration, evaluated.\<close>

lemma widget_checks: "declare_checks accept widgets_api widget_store 0"
  by (simp add: declare_checks_def sample_defs of_str_def stability_default_stability
        experimental_level or_else_def)

lemma first_call_result:
  "first_call =
     (None, widgets_api\<lparr>entries := [0]\<rparr>,
      widget_store(0 := attach_handler (JFunction 0)
         (default_query (merge_params widgets_api (default_stability (widget_store 0))))))"
proof -
  have "entries widgets_api = []"
    by (simp add: widgets_api_def)
  then show ?thesis
    unfolding first_call_def by (simp add: declare_entry_accepts[OF widget_checks])
qed

lemma first_call_eval:
  "thrown first_call = None"
  "entries (builder_after first_call) = [0]"
  "route (store_after first_call 0) = Some ''/widgets/:id''"
  "method (store_after first_call 0) = Some ''get''"
  "name (store_after first_call 0) = Some ''getWidget''"
  "stability (store_after first_call 0) = JStr ''experimental''"
  "query (store_after first_call 0) = JObject []"
  "handler (store_after first_call 0) = JFunction 0"
  by (simp_all add: first_call_result proj_defs widget_store_def get_widget_def blank_def
        stability_default_stability experimental_def query_default_query or_else_def)

lemma first_call_others:
  "store_after first_call (Suc 0) = get_widget\<lparr>name := Some ''getWidgetAgain''\<rparr>"
  "store_after first_call 2 = get_widget\<lparr>route := Some ''/gadgets/:id''\<rparr>"
  "store_after first_call 3 = get_widget\<lparr>stability := JStr ''''\<rparr>"
  "store_after first_call 4 = get_widget\<lparr>stability := JStr ''beta''\<rparr>"
  "store_after first_call 5 = get_widget\<lparr>query := JObject [(''limit'', JStr ''not-a-function-or-regex'')]\<rparr>"
  by (simp_all add: first_call_result proj_defs widget_store_def)

lemma widget_store_fields:
  "query (widget_store 6) =
     JObject [(''length'', JNum (Finite 0)), (''limit'', JStr ''not-a-function-or-regex'')]"
  "params (widget_store 7) =
     JObject [(''slug'', JRegExp ''^[a-z-]+$''), (''id'', JRegExp ''^[a-f0-9]+$'')]"
  "stability (widget_store 7) = JStr ''stable''"
  "query (widget_store 7) = JObject [(''offset'', JRegExp ''^[0-9]+$'')]"
  by (simp_all add: widget_store_def get_widget_def blank_def)

section \<open>Declarations are atomic\<close>

text \<open>
  C1. A call of \<^verbatim>\<open>declare\<close> changes the \<^verbatim>\<open>entries\<close> array only when it succeeds: when
  it throws, whatever the reason, the array after the call is the array before it, and when
  it returns, the array is the old one with the caller's object appended at the end. No
  object other than the caller's is written.
\<close>

theorem declare_entry_atomic:
  "(thrown (declare_entry validate this s options h) \<noteq> None \<longrightarrow>
      entries (builder_after (declare_entry validate this s options h)) = entries this) \<and>
   (thrown (declare_entry validate this s options h) = None \<longrightarrow>
      entries (builder_after (declare_entry validate this s options h)) = entries this @ [options]) \<and>
   (\<forall>a. a \<noteq> options \<longrightarrow> store_after (declare_entry validate this s options h) a = s a)"
proof (cases "declare_checks validate this s options")
  case True
  from declare_entry_accepts[OF this, of h] show ?thesis
    by (simp add: proj_defs)
next
  case False
  from declare_entry_rejects[OF this, of h] show ?thesis
    by (simp add: declare_entry_frame)
qed

text \<open>
  The sample entry is accepted on the empty registry, which becomes \<open>[0]\<close>; the entry of
  address 4 (stability \<^verbatim>\<open>"beta"\<close>) is then refused, and the registry is still \<open>[0]\<close>,
  with the object at address 0 as it was.
\<close>

theorem declare_entry_atomic_witness:
  "thrown first_call = None \<and> entries (builder_after first_call) = [0] \<and>
   thrown (declare_entry accept (builder_after first_call) (store_after first_call) 4 (JFunction 1)) \<noteq> None \<and>
   entries (builder_after (declare_entry accept (builder_after first_call) (store_after first_call) 4 (JFunction 1))) = [0] \<and>
   store_after (declare_entry accept (builder_after first_call) (store_after first_call) 4 (JFunction 1)) 0 = store_after first_call 0"
proof -
  have ok: "thrown (declare_entry accept widgets_api widget_store 0 (JFunction 0)) = None"
    using first_call_eval(1) by (simp add: first_call_def)
  have "\<not> declare_checks accept (builder_after first_call) (store_after first_call) 4"
    by (simp add: declare_checks_def first_call_others get_widget_def blank_def
          stability_default_stability STABILITY_LEVELS_def deprecated_def experimental_def stable_def)
  then have bad: "thrown (declare_entry accept (builder_after first_call) (store_after first_call) 4 (JFunction 1)) \<noteq> None"
    by (simp add: declare_entry_rejects)
  from declare_entry_atomic[of accept widgets_api widget_store 0 "JFunction 0"] ok
    declare_entry_atomic[of accept "builder_after first_call" "store_after first_call" 4 "JFunction 1"] bad
  show ?thesis
    by (simp add: first_call_def[symmetric] first_call_eval)
qed

section \<open>Unique route and method, unique name\<close>

text \<open>
  C3. When the object handed to \<^verbatim>\<open>declare\<close> has the route and the method of an entry
  that is already registered, the call throws and the registry is as long as before; so
  the second of two declarations with the same route and method fails and leaves the
  length as the first one made it.
\<close>

theorem declare_entry_same_route_method:
  assumes "entry \<in> set (entries this)"
    and "route (s entry) = route (s options)"
    and "method (s entry) = method (s options)"
  shows "thrown (declare_entry validate this s options h) \<noteq> None \<and>
         length (entries (builder_after (declare_entry validate this s options h))) =
           length (entries this)"
proof -
  from assms have "\<not> declare_checks validate this s options"
    by (auto simp: declare_checks_def list_ex_iff)
  from declare_entry_rejects[OF this, of h] show ?thesis
    by simp
qed

text \<open>
  After the sample declaration of \<^verbatim>\<open>get /widgets/:id\<close>, the object at address 1 (the
  same route and method under another name) is refused and one entry stays registered.
\<close>

theorem declare_entry_same_route_method_witness:
  "thrown (declare_entry accept (builder_after first_call) (store_after first_call) 1 (JFunction 1)) \<noteq> None \<and>
   length (entries (builder_after
     (declare_entry accept (builder_after first_call) (store_after first_call) 1 (JFunction 1)))) = 1"
proof -
  have registered: "0 \<in> set (entries (builder_after first_call))"
    by (simp add: first_call_eval)
  have same_route: "route (store_after first_call 0) = route (store_after first_call 1)"
    by (simp add: first_call_eval first_call_others get_widget_def blank_def)
  have same_method: "method (store_after first_call 0) = method (store_after first_call 1)"
    by (simp add: first_call_eval first_call_others get_widget_def blank_def)
  from declare_entry_same_route_method[OF registered same_route same_method, of accept "JFunction 1"]
  show ?thesis
    by (simp add: first_call_eval)
qed

text \<open>
  C4. When the object handed to \<^verbatim>\<open>declare\<close> has the name of an entry that is already
  registered, whatever its route and method, the call throws and the builder, its registry
  included, is unchanged.
\<close>

theorem declare_entry_same_name:
  assumes "entry \<in> set (entries this)"
    and "name (s entry) = name (s options)"
  shows "thrown (declare_entry validate this s options h) \<noteq> None \<and>
         builder_after (declare_entry validate this s options h) = this"
proof -
  from assms have "\<not> declare_checks validate this s options"
    by (auto simp: declare_checks_def list_ex_iff)
  then show ?thesis
    by (rule declare_entry_rejects)
qed

text \<open>
  After the sample declaration of \<^verbatim>\<open>getWidget\<close>, the object at address 2 (the same name
  on the route \<^verbatim>\<open>/gadgets/:id\<close>) is refused.
\<close>

theorem declare_entry_same_name_witness:
  "route (store_after first_call 0) \<noteq> route (store_after first_call 2) \<and>
   thrown (declare_entry accept (builder_after first_call) (store_after first_call) 2 (JFunction 1)) \<noteq> None \<and>
   builder_after (declare_entry accept (builder_after first_call) (store_after first_call) 2 (JFunction 1)) =
     builder_after first_call"
proof -
  have registered: "0 \<in> set (entries (builder_after first_call))"
    by (simp add: first_call_eval)
  have same_name: "name (store_after first_call 0) = name (store_after first_call 2)"
    by (simp add: first_call_eval first_call_others get_widget_def blank_def)
  have other_route: "route (store_after first_call 0) \<noteq> route (store_after first_call 2)"
    by (simp add: first_call_eval first_call_others get_widget_def blank_def)
  from declare_entry_same_name[OF registered same_name, of accept "JFunction 1"] other_route
  show ?thesis
    by simp
qed

section \<open>The stability of a declared entry\<close>

text \<open>
  C5, as the code has it. After a successful \<^verbatim>\<open>declare\<close> the stored stability is one
  of \<^verbatim>\<open>deprecated\<close>, \<^verbatim>\<open>experimental\<close>, \<^verbatim>\<open>stable\<close>; when the caller's stability was
  absent or any other falsy value (\<^verbatim>\<open>undefined\<close>, \<^verbatim>\<open>null\<close>, \<^verbatim>\<open>false\<close>, \<^verbatim>\<open>0\<close>,
  the empty string) the stored one is exactly \<^verbatim>\<open>"experimental"\<close>; and a call whose
  stability is a truthy value outside the three levels throws.
\<close>

theorem declare_entry_stability:
  "(thrown (declare_entry validate this s options h) = None \<longrightarrow>
      stability (store_after (declare_entry validate this s options h) options)
        \<in> set STABILITY_LEVELS \<and>
      (\<not> truthy (stability (s options)) \<longrightarrow>
         stability (store_after (declare_entry validate this s options h) options) =
           JStr ''experimental'')) \<and>
   (truthy (stability (s options)) \<and> stability (s options) \<notin> set STABILITY_LEVELS \<longrightarrow>
      thrown (declare_entry validate this s options h) \<noteq> None)"
proof (cases "declare_checks validate this s options")
  case True
  then have "stability (default_stability (s options)) \<in> set STABILITY_LEVELS"
    by (simp add: declare_checks_def)
  with declare_entry_accepts[OF True, of h] show ?thesis
    by (auto simp: proj_defs stability_default_stability experimental_def)
next
  case False
  from declare_entry_rejects[OF this, of h] show ?thesis
    by auto
qed

text \<open>
  The sample entry, which has no stability, is stored as \<^verbatim>\<open>"experimental"\<close>; the object
  at address 4, with stability \<^verbatim>\<open>"beta"\<close>, is refused.
\<close>

theorem declare_entry_stability_witness:
  "stability (widget_store 0) = JUndefined \<and>
   stability (store_after first_call 0) = JStr ''experimental'' \<and>
   stability (widget_store 4) = JStr ''beta'' \<and>
   thrown (declare_entry accept widgets_api widget_store 4 (JFunction 0)) \<noteq> None"
proof -
  have ok: "thrown (declare_entry accept widgets_api widget_store 0 (JFunction 0)) = None"
    using first_call_eval(1) by (simp add: first_call_def)
  have absent: "stability (widget_store 0) = JUndefined"
    by (simp add: widget_store_def get_widget_def blank_def)
  have beta: "stability (widget_store 4) = JStr ''beta''"
    by (simp add: widget_store_def get_widget_def blank_def)
  have outside: "JStr ''beta'' \<notin> set STABILITY_LEVELS"
    by (simp add: STABILITY_LEVELS_def deprecated_def experimental_def stable_def)
  from declare_entry_stability[of accept widgets_api widget_store 0 "JFunction 0"]
    declare_entry_stability[of accept widgets_api widget_store 4 "JFunction 0"]
    ok absent beta outside
  show ?thesis
    by (simp add: first_call_def[symmetric])
qed

text \<open>
  The claim as written fails for a falsy stability outside the three levels: the object at
  address 3 has the empty string as its stability, which is none of the levels, and its
  declaration succeeds, with \<^verbatim>\<open>"experimental"\<close> stored.
\<close>

theorem declare_entry_stability_counterexample:
  "stability (widget_store 3) = JStr '''' \<and>
   JStr '''' \<notin> set STABILITY_LEVELS \<and>
   thrown (declare_entry accept widgets_api widget_store 3 (JFunction 0)) = None \<and>
   stability (store_after (declare_entry accept widgets_api widget_store 3 (JFunction 0)) 3) =
     JStr ''experimental''"
proof -
  have checks: "declare_checks accept widgets_api widget_store 3"
    by (simp add: declare_checks_def sample_defs of_str_def stability_default_stability
          experimental_level or_else_def)
  have "stability (widget_store 3) = JStr ''''"
    by (simp add: widget_store_def get_widget_def blank_def)
  moreover have "JStr '''' \<notin> set STABILITY_LEVELS"
    by (simp add: STABILITY_LEVELS_def deprecated_def experimental_def stable_def)
  ultimately show ?thesis
    by (simp add: declare_entry_accepts[OF checks] proj_defs stability_default_stability
          experimental_def)
qed

section \<open>Query validators\<close>

text \<open>
  What the loop of lines 156 to 160 does enforce. When the \<^verbatim>\<open>query\<close> mapping is not
  array-like and has a value that is neither a regular expression nor a function, the call
  throws and the builder is unchanged; when \<^verbatim>\<open>query\<close> is absent and the call succeeds, the
  stored entry's \<^verbatim>\<open>query\<close> is the empty mapping.
\<close>

lemma declare_entry_query_plain:
  "(query (s options) = JObject kvs \<and> \<not> isLength (get kvs ''length'') \<and> (key, v) \<in> set kvs \<and>
      \<not> instanceof_RegExp v \<and> \<not> instanceof_Function v \<longrightarrow>
      thrown (declare_entry validate this s options h) \<noteq> None \<and>
      builder_after (declare_entry validate this s options h) = this) \<and>
   (query (s options) = JUndefined \<and> thrown (declare_entry validate this s options h) = None \<longrightarrow>
      query (store_after (declare_entry validate this s options h) options) = JObject [])"
proof (intro conjI impI)
  assume a: "query (s options) = JObject kvs \<and> \<not> isLength (get kvs ''length'') \<and>
      (key, v) \<in> set kvs \<and> \<not> instanceof_RegExp v \<and> \<not> instanceof_Function v"
  then have "check_query kvs \<noteq> None"
    by (auto simp: check_query_None)
  with a have "\<not> declare_checks validate this s options"
    by (simp add: declare_checks_def or_else_def)
  from declare_entry_rejects[OF this, of h]
  show "thrown (declare_entry validate this s options h) \<noteq> None"
    and "builder_after (declare_entry validate this s options h) = this"
    by simp_all
next
  assume a: "query (s options) = JUndefined \<and> thrown (declare_entry validate this s options h) = None"
  then have "declare_checks validate this s options"
    using declare_entry_rejects[of validate this s options h] by blast
  from declare_entry_accepts[OF this, of h] a
  show "query (store_after (declare_entry validate this s options h) options) = JObject []"
    by (simp add: proj_defs attach_handler_def query_default_query or_else_def)
qed

text \<open>
  C6, at a failing input. The object at address 6 has
  \<^verbatim>\<open>query: {length: 0, limit: "not-a-function-or-regex"}\<close>: both values are neither a
  regular expression nor a function. \<^verbatim>\<open>_.forEach\<close> takes the object for array-like and
  walks the indices below its length, of which there are none, so the iteratee never runs:
  the declaration succeeds and the entry is appended.
\<close>

theorem declare_entry_array_like_query:
  "query (widget_store 6) =
     JObject [(''length'', JNum (Finite 0)), (''limit'', JStr ''not-a-function-or-regex'')] \<and>
   \<not> instanceof_RegExp (JStr ''not-a-function-or-regex'') \<and>
   \<not> instanceof_Function (JStr ''not-a-function-or-regex'') \<and>
   \<not> instanceof_RegExp (JNum (Finite 0)) \<and>
   \<not> instanceof_Function (JNum (Finite 0)) \<and>
   forEach_pairs (query (widget_store 6)) = [] \<and>
   thrown (declare_entry accept widgets_api widget_store 6 (JFunction 0)) = None \<and>
   entries (builder_after (declare_entry accept widgets_api widget_store 6 (JFunction 0))) = [6]"
proof -
  have visited: "forEach_pairs (query (widget_store 6)) = []"
    by (simp add: widget_store_fields get_def)
  have "declare_checks accept widgets_api widget_store 6"
    by (simp add: declare_checks_def sample_defs of_str_def stability_default_stability
          experimental_level or_else_def get_def)
  from declare_entry_accepts[OF this, of "JFunction 0"] visited show ?thesis
    by (simp add: proj_defs widget_store_fields widgets_api_def)
qed

section \<open>The registry keeps the caller's object\<close>

text \<open>The keys of an object after \<^verbatim>\<open>_.defaults\<close>.\<close>

lemma set_insert_new: "set (insert_new k v ps) = insert (k, v) (set ps)"
  by (induction ps) (auto split: if_splits)

lemma keys_insert_new: "fst ` set (insert_new k v ps) = insert k (fst ` set ps)"
  by (simp add: set_insert_new)

lemma keys_put: "fst ` set (put k v obj) = insert k (fst ` set obj)"
  by (simp add: put_def keys_insert_new dom_update)

lemma keys_defaults_from:
  "fst ` set (defaults_from obj src ks) =
     fst ` set obj \<union> {k \<in> set ks. k \<noteq> ''__proto__'' \<and> get obj k = JUndefined}"
  by (induction ks arbitrary: obj) (auto simp: keys_put get_put)

lemma get_defined_key: "get ps k \<noteq> JUndefined \<Longrightarrow> k \<in> fst ` set ps"
  using get_absent_key by blast

lemma keys_defaults:
  "fst ` set (defaults [] [own, fallback]) =
     (fst ` set (keysIn own) \<union> fst ` set (keysIn fallback)) - {''__proto__''}"
proof -
  have first: "fst ` set (defaults_from [] (keysIn own) (map fst (keysIn own))) =
      fst ` set (keysIn own) - {''__proto__''}"
    by (auto simp: keys_defaults_from)
  show ?thesis
    unfolding defaults_def
    by (auto simp: keys_defaults_from first get_defaults_from dest: get_defined_key)
qed

text \<open>
  C10. After a successful \<^verbatim>\<open>declare(options, handler)\<close> the last element of \<^verbatim>\<open>entries\<close>
  is the caller's own object, written in place. Its stability is the caller's, or
  \<^verbatim>\<open>"experimental"\<close> where that was falsy. Its \<^verbatim>\<open>params\<close> is a fresh mapping over the keys
  of the caller's \<^verbatim>\<open>params\<close> and of the builder's (\<^verbatim>\<open>__proto__\<close> left out), holding at each
  key the caller's value where that is not \<^verbatim>\<open>undefined\<close> and the builder's otherwise. Its
  \<^verbatim>\<open>query\<close> is the caller's, or the empty mapping where that was falsy, and its handler is
  the one handed in; the other fields are as the caller left them. The registry holds the
  object itself and not a copy: whatever a later store holds at that address is what the
  registry's entry reads.
\<close>

theorem declare_entry_keeps_reference:
  assumes "thrown (declare_entry validate this s options h) = None"
  shows "entries (builder_after (declare_entry validate this s options h)) =
           entries this @ [options] \<and>
         stability (store_after (declare_entry validate this s options h) options) =
           (if truthy (stability (s options)) then stability (s options)
            else JStr ''experimental'') \<and>
         (\<exists>merged.
            params (store_after (declare_entry validate this s options h) options) =
              JObject merged \<and>
            fst ` set merged =
              (fst ` set (keysIn (if truthy (params (s options)) then params (s options)
                                  else JObject [])) \<union>
               fst ` set (keysIn (params this))) - {''__proto__''} \<and>
            (\<forall>k. k \<noteq> ''__proto__'' \<longrightarrow>
               get merged k =
                 (if get (keysIn (if truthy (params (s options)) then params (s options)
                                  else JObject [])) k \<noteq> JUndefined
                  then get (keysIn (if truthy (params (s options)) then params (s options)
                                    else JObject [])) k
                  else get (keysIn (params this)) k))) \<and>
         query (store_after (declare_entry validate this s options h) options) =
           (if truthy (query (s options)) then query (s options) else JObject []) \<and>
         handler (store_after (declare_entry validate this s options h) options) = h \<and>
         name (store_after (declare_entry validate this s options h) options) = name (s options) \<and>
         method (store_after (declare_entry validate this s options h) options) = method (s options) \<and>
         route (store_after (declare_entry validate this s options h) options) = route (s options) \<and>
         title (store_after (declare_entry validate this s options h) options) = title (s options) \<and>
         description (store_after (declare_entry validate this s options h) options) =
           description (s options) \<and>
         deferAuth (store_after (declare_entry validate this s options h) options) =
           deferAuth (s options) \<and>
         scopes (store_after (declare_entry validate this s options h) options) = scopes (s options) \<and>
         (\<forall>s'. entry_at (builder_after (declare_entry validate this s options h)) s'
                  (length (entries this)) = s' options)"
proof -
  from assms have "declare_checks validate this s options"
    using declare_entry_rejects[of validate this s options h] by blast
  note result = declare_entry_accepts[OF this, of h]
  have merged: "params (merge_params this (default_stability (s options))) =
      JObject (defaults [] [if truthy (params (s options)) then params (s options) else JObject [],
                            params this])"
    by (simp add: merge_params_def or_else_def)
  have fields: "title (attach_handler h (default_query (merge_params this (default_stability (s options))))) =
      title (s options)"
    "description (attach_handler h (default_query (merge_params this (default_stability (s options))))) =
      description (s options)"
    "deferAuth (attach_handler h (default_query (merge_params this (default_stability (s options))))) =
      deferAuth (s options)"
    "scopes (attach_handler h (default_query (merge_params this (default_stability (s options))))) =
      scopes (s options)"
    by (simp_all add: attach_handler_def default_query_def merge_params_def default_stability_def)
  show ?thesis
    unfolding result proj_defs
    by (simp add: merged fields entry_at_def stability_default_stability experimental_def
          query_default_query or_else_def keys_defaults get_defaults)
qed

text \<open>
  The object at address 7 has stability \<^verbatim>\<open>"stable"\<close>, a query of its own and parameters
  \<^verbatim>\<open>slug\<close> and \<^verbatim>\<open>id\<close>; the builder has parameters \<^verbatim>\<open>id\<close> and \<^verbatim>\<open>page\<close>. After its
  declaration the registry is \<open>[7]\<close>, the object keeps its stability and query, carries the
  handler, and its parameters are its own \<^verbatim>\<open>slug\<close> and \<^verbatim>\<open>id\<close> with the builder's
  \<^verbatim>\<open>page\<close>; overwriting the object with the blank one makes the registry's entry blank.
  The object at address 0 has neither stability nor query, and is stored with
  \<^verbatim>\<open>"experimental"\<close> and the empty mapping.
\<close>

theorem declare_entry_keeps_reference_witness:
  "thrown (declare_entry accept widgets_api widget_store 7 (JFunction 2)) = None \<and>
   entries (builder_after (declare_entry accept widgets_api widget_store 7 (JFunction 2))) = [7] \<and>
   stability (store_after (declare_entry accept widgets_api widget_store 7 (JFunction 2)) 7) =
     JStr ''stable'' \<and>
   params (store_after (declare_entry accept widgets_api widget_store 7 (JFunction 2)) 7) =
     JObject [(''slug'', JRegExp ''^[a-z-]+$''), (''id'', JRegExp ''^[a-f0-9]+$''),
              (''page'', JRegExp ''^[1-9][0-9]*$'')] \<and>
   query (store_after (declare_entry accept widgets_api widget_store 7 (JFunction 2)) 7) =
     JObject [(''offset'', JRegExp ''^[0-9]+$'')] \<and>
   handler (store_after (declare_entry accept widgets_api widget_store 7 (JFunction 2)) 7) =
     JFunction 2 \<and>
   entry_at (builder_after (declare_entry accept widgets_api widget_store 7 (JFunction 2)))
     ((store_after (declare_entry accept widgets_api widget_store 7 (JFunction 2)))(7 := blank)) 0 =
     blank \<and>
   stability (widget_store 0) = JUndefined \<and> query (widget_store 0) = JUndefined \<and>
   stability (store_after (declare_entry accept widgets_api widget_store 0 (JFunction 0)) 0) =
     JStr ''experimental'' \<and>
   query (store_after (declare_entry accept widgets_api widget_store 0 (JFunction 0)) 0) =
     JObject []"
proof -
  have ok0: "thrown (declare_entry accept widgets_api widget_store 0 (JFunction 0)) = None"
    using first_call_eval(1) by (simp add: first_call_def)
  have absent: "stability (widget_store 0) = JUndefined" "query (widget_store 0) = JUndefined"
    by (simp_all add: widget_store_def get_widget_def blank_def)
  note kept0 = declare_entry_keeps_reference[OF ok0]
  have level0: "stability (store_after (declare_entry accept widgets_api widget_store 0 (JFunction 0)) 0) =
      JStr ''experimental''"
    using kept0[THEN conjunct2, THEN conjunct1] by (simp add: absent)
  have validators0: "query (store_after (declare_entry accept widgets_api widget_store 0 (JFunction 0)) 0) =
      JObject []"
    using kept0[THEN conjunct2, THEN conjunct2, THEN conjunct2, THEN conjunct1]
    by (simp add: absent)
  have checks: "declare_checks accept widgets_api widget_store 7"
    by (simp add: declare_checks_def sample_defs of_str_def stability_default_stability
          STABILITY_LEVELS_def stable_def or_else_def get_def)
  then have ok: "thrown (declare_entry accept widgets_api widget_store 7 (JFunction 2)) = None"
    by (simp add: declare_entry_accepts proj_defs)
  have empty: "entries widgets_api = []"
    by (simp add: widgets_api_def)
  have "params (store_after (declare_entry accept widgets_api widget_store 7 (JFunction 2)) 7) =
      params (merge_params widgets_api (widget_store 7))"
    by (simp add: declare_entry_accepts[OF checks] proj_defs merge_params_def)
  also have "\<dots> = JObject [(''slug'', JRegExp ''^[a-z-]+$''), (''id'', JRegExp ''^[a-f0-9]+$''),
               (''page'', JRegExp ''^[1-9][0-9]*$'')]"
    by (simp add: merge_params_def widget_store_fields widgets_api_def or_else_def defaults_def
          get_def put_new_name in_range_def)
  finally have stored:
    "params (store_after (declare_entry accept widgets_api widget_store 7 (JFunction 2)) 7) =
      JObject [(''slug'', JRegExp ''^[a-z-]+$''), (''id'', JRegExp ''^[a-f0-9]+$''),
               (''page'', JRegExp ''^[1-9][0-9]*$'')]" .
  note kept = declare_entry_keeps_reference[OF ok]
  have registry: "entries (builder_after (declare_entry accept widgets_api widget_store 7 (JFunction 2))) = [7]"
    using kept[THEN conjunct1] empty by simp
  have level: "stability (store_after (declare_entry accept widgets_api widget_store 7 (JFunction 2)) 7) =
      JStr ''stable''"
    using kept[THEN conjunct2, THEN conjunct1] by (simp add: widget_store_fields)
  have validators: "query (store_after (declare_entry accept widgets_api widget_store 7 (JFunction 2)) 7) =
      JObject [(''offset'', JRegExp ''^[0-9]+$'')]"
    using kept[THEN conjunct2, THEN conjunct2, THEN conjunct2, THEN conjunct1]
    by (simp add: widget_store_fields)
  have attached: "handler (store_after (declare_entry accept widgets_api widget_store 7 (JFunction 2)) 7) =
      JFunction 2"
    using kept[THEN conjunct2, THEN conjunct2, THEN conjunct2, THEN conjunct2, THEN conjunct1] .
  have "entry_at (builder_after (declare_entry accept widgets_api widget_store 7 (JFunction 2)))
      ((store_after (declare_entry accept widgets_api widget_store 7 (JFunction 2)))(7 := blank))
      (length (entries widgets_api)) =
      ((store_after (declare_entry accept widgets_api widget_store 7 (JFunction 2)))(7 := blank)) 7"
    using kept by blast
  then have shared: "entry_at (builder_after (declare_entry accept widgets_api widget_store 7 (JFunction 2)))
      ((store_after (declare_entry accept widgets_api widget_store 7 (JFunction 2)))(7 := blank)) 0 = blank"
    using empty by simp
  from ok registry level stored validators attached shared absent level0 validators0
  show ?thesis
    by (intro conjI)
qed

section \<open>The constructor\<close>

text \<open>What the unanchored test of an error code's key comes to: an upper-case letter somewhere.\<close>

lemma in_set_substrings:
  "p \<in> set (substrings s) \<longleftrightarrow> (\<exists>suf. suffix suf s \<and> prefix p suf)"
  by (auto simp: substrings_def)

lemma error_code_re_iff:
  "error_code_re key \<longleftrightarrow> (\<exists>c \<in> set key. in_range CHR ''A'' CHR ''Z'' c)"
proof
  assume "error_code_re key"
  then obtain p suf where p: "error_code_pattern p" and suf: "suffix suf key" and pre: "prefix p suf"
    by (auto simp: error_code_re_def list_ex_iff in_set_substrings)
  from p obtain c cs where pc: "p = c # cs" and up: "in_range CHR ''A'' CHR ''Z'' c"
    by (auto simp: error_code_pattern_def split: list.splits)
  from pre pc have "c \<in> set suf"
    by (auto simp: prefix_def)
  with suf have "c \<in> set key"
    by (auto simp: suffix_def)
  with up show "\<exists>c \<in> set key. in_range CHR ''A'' CHR ''Z'' c"
    by blast
next
  assume "\<exists>c \<in> set key. in_range CHR ''A'' CHR ''Z'' c"
  then obtain c where c: "c \<in> set key" and up: "in_range CHR ''A'' CHR ''Z'' c"
    by blast
  from c obtain xs ys where key: "key = xs @ c # ys"
    by (auto simp: in_set_conv_decomp)
  then have "suffix (c # ys) key" and "prefix [c] (c # ys)"
    by (simp_all add: suffix_def)
  then have "[c] \<in> set (substrings key)"
    by (auto simp: in_set_substrings)
  moreover from up have "error_code_pattern [c]"
    by (simp add: error_code_pattern_def)
  ultimately show "error_code_re key"
    by (auto simp: error_code_re_def list_ex_iff)
qed

lemma check_error_codes_None:
  "check_error_codes kvs = None \<longleftrightarrow> (\<forall>(k, v) \<in> set kvs. error_code_re k \<and> is_number v)"
  by (induction kvs) (auto split: if_splits)

text \<open>
  C7. The constructor throws whenever the name does not match \<^verbatim>\<open>^[a-z][a-z0-9_-]*$\<close> and
  whenever the version does not match \<^verbatim>\<open>^v[0-9]+$\<close> (an absent name or version is
  refused before, as a missing option).
\<close>

theorem APIBuilder_name_version:
  assumes "\<not> name_re (to_string (name options)) \<or> \<not> version_re (to_string (version options))"
  shows "isl (APIBuilder ERROR_CODES options)"
  using assms
  by (auto simp: APIBuilder_def simp del: first_missing.simps split: option.splits)

text \<open>The names \<^verbatim>\<open>"Bad Name"\<close> and \<^verbatim>\<open>"1abc"\<close> and the versions \<^verbatim>\<open>"1"\<close> and \<^verbatim>\<open>"version1"\<close>.\<close>

theorem APIBuilder_name_version_witness:
  "isl (APIBuilder sample_ERROR_CODES (widgets_options\<lparr>name := Some ''Bad Name''\<rparr>)) \<and>
   isl (APIBuilder sample_ERROR_CODES (widgets_options\<lparr>name := Some ''1abc''\<rparr>)) \<and>
   isl (APIBuilder sample_ERROR_CODES (widgets_options\<lparr>version := Some ''1''\<rparr>)) \<and>
   isl (APIBuilder sample_ERROR_CODES (widgets_options\<lparr>version := Some ''version1''\<rparr>))"
proof -
  have names: "\<not> name_re ''Bad Name''" "\<not> name_re ''1abc''"
    by (simp_all add: name_re_def in_range_def)
  have versions: "\<not> version_re ''1''" "\<not> version_re ''version1''"
    by (simp_all add: version_re_def in_range_def)
  from names versions
    APIBuilder_name_version[of "widgets_options\<lparr>name := Some ''Bad Name''\<rparr>" sample_ERROR_CODES]
    APIBuilder_name_version[of "widgets_options\<lparr>name := Some ''1abc''\<rparr>" sample_ERROR_CODES]
    APIBuilder_name_version[of "widgets_options\<lparr>version := Some ''1''\<rparr>" sample_ERROR_CODES]
    APIBuilder_name_version[of "widgets_options\<lparr>version := Some ''version1''\<rparr>" sample_ERROR_CODES]
  show ?thesis
    by (simp add: to_string_def)
qed

text \<open>
  C9. When the constructor returns, the builder's \<^verbatim>\<open>name\<close>, \<^verbatim>\<open>version\<close>, \<^verbatim>\<open>title\<close>
  and \<^verbatim>\<open>description\<close> are the ones of the options, and its \<^verbatim>\<open>entries\<close> array is empty.
\<close>

theorem APIBuilder_fields:
  assumes "APIBuilder ERROR_CODES options = Inr this"
  shows "name this = name options \<and> version this = version options \<and>
         title this = title options \<and> description this = description options \<and>
         entries this = []"
  using assms
  by (auto simp: APIBuilder_def Let_def simp del: first_missing.simps
        split: option.splits if_splits)

text \<open>The sample options are accepted, and the builder made of them is the one expected.\<close>

theorem APIBuilder_fields_witness:
  "APIBuilder sample_ERROR_CODES widgets_options =
     Inr \<lparr>title = Some ''Widgets'', description = Some ''The widget service'',
          name = Some ''widgets'', params = JObject [], version = Some ''v1'',
          apiContext = JArray [], errorCodes = sample_ERROR_CODES, entries = []\<rparr>"
proof -
  have keys: "error_code_re ''InputError''" "error_code_re ''ResourceNotFound''"
    by (simp_all add: error_code_re_iff in_range_def)
  have names: "name_re ''widgets''" "version_re ''v1''"
    by (simp_all add: name_re_def version_re_def in_range_def)
  have merged: "JObject (defaults [] [JObject [], sample_ERROR_CODES]) = sample_ERROR_CODES"
    by (simp add: defaults_def sample_ERROR_CODES_def get_def put_new_name in_range_def)
  have visited: "forEach_pairs sample_ERROR_CODES =
      [(''InputError'', JNum (Finite 400)), (''ResourceNotFound'', JNum (Finite 404))]"
    by (simp add: sample_ERROR_CODES_def get_def)
  have made: "APIBuilder sample_ERROR_CODES widgets_options =
      Inr \<lparr>title = Some ''Widgets'', description = Some ''The widget service'',
           name = Some ''widgets'', params = JObject [], version = Some ''v1'',
           apiContext = JArray [], errorCodes = sample_ERROR_CODES, entries = []\<rparr>"
    using keys names
    by (simp add: APIBuilder_def widgets_options_def of_str_def to_string_def or_else_def
          default_to_def merged visited Let_def)
  from APIBuilder_fields[OF made] made show ?thesis
    by simp
qed

text \<open>
  C2, at a failing input. The key \<^verbatim>\<open>"bad key-X"\<close> does not match
  \<^verbatim>\<open>^[A-Z][A-Za-z0-9]*$\<close> and the status 418.5 is not an integer, and the constructor
  accepts the options that carry them: the test of the key has no anchors, so one upper-case
  letter anywhere is enough, and the test of the status is \<^verbatim>\<open>typeof value === 'number'\<close>.
\<close>

theorem APIBuilder_lenient_error_codes:
  "\<not> error_code_pattern ''bad key-X'' \<and>
   \<not> is_integer (JNum (Finite (837 / 2))) \<and>
   (case APIBuilder sample_ERROR_CODES lenient_options of
      Inl e \<Rightarrow> False
    | Inr this \<Rightarrow>
        errorCodes this = JObject
          [(''bad key-X'', JNum (Finite 400)), (''Teapot'', JNum (Finite (837 / 2))),
           (''InputError'', JNum (Finite 400)), (''ResourceNotFound'', JNum (Finite 404))])"
proof -
  have keys: "error_code_re ''InputError''" "error_code_re ''ResourceNotFound''"
    "error_code_re ''bad key-X''" "error_code_re ''Teapot''"
    by (simp_all add: error_code_re_iff in_range_def)
  have names: "name_re ''widgets''" "version_re ''v1''"
    by (simp_all add: name_re_def version_re_def in_range_def)
  have merged: "defaults []
      [JObject [(''bad key-X'', JNum (Finite 400)), (''Teapot'', JNum (Finite (837 / 2)))],
       sample_ERROR_CODES] =
      [(''bad key-X'', JNum (Finite 400)), (''Teapot'', JNum (Finite (837 / 2))),
       (''InputError'', JNum (Finite 400)), (''ResourceNotFound'', JNum (Finite 404))]"
    by (simp add: defaults_def sample_ERROR_CODES_def get_def put_new_name in_range_def)
  have visited: "forEach_pairs (JObject
      [(''bad key-X'', JNum (Finite 400)), (''Teapot'', JNum (Finite (837 / 2))),
       (''InputError'', JNum (Finite 400)), (''ResourceNotFound'', JNum (Finite 404))]) =
      [(''bad key-X'', JNum (Finite 400)), (''Teapot'', JNum (Finite (837 / 2))),
       (''InputError'', JNum (Finite 400)), (''ResourceNotFound'', JNum (Finite 404))]"
    by (simp add: get_def)
  have unanchored: "\<not> error_code_pattern ''bad key-X''"
    by (simp add: error_code_pattern_def in_range_def)
  have fraction: "\<not> is_integer (JNum (Finite (837 / 2)))"
    by code_simp
  have accepted: "(case APIBuilder sample_ERROR_CODES lenient_options of
      Inl e \<Rightarrow> False
    | Inr this \<Rightarrow>
        errorCodes this = JObject
          [(''bad key-X'', JNum (Finite 400)), (''Teapot'', JNum (Finite (837 / 2))),
           (''InputError'', JNum (Finite 400)), (''ResourceNotFound'', JNum (Finite 404))])"
    using keys names
    by (simp add: APIBuilder_def lenient_options_def widgets_options_def of_str_def to_string_def
          or_else_def default_to_def merged visited Let_def del: forEach_pairs.simps)
  from unanchored fraction accepted show ?thesis
    by (intro conjI)
qed

section \<open>Building and publishing\<close>

text \<open>
  C8. Let the service be constructed. With a truthy \<^verbatim>\<open>publish\<close> option, \<^verbatim>\<open>publish\<close> is
  called exactly once, on that service; the promise of \<^verbatim>\<open>build\<close> is fulfilled, with that
  service, exactly when the promise of \<^verbatim>\<open>publish\<close> is fulfilled, and when \<^verbatim>\<open>publish\<close>
  is rejected it is rejected with the same cause. With a falsy \<^verbatim>\<open>publish\<close> option,
  \<^verbatim>\<open>publish\<close> is not called and the promise is fulfilled with the service.
\<close>

theorem build_publish:
  assumes "new_API (options\<lparr>api := Some this\<rparr>) = Inr service"
  shows "(truthy (publish options) \<longrightarrow>
            publish_calls (build new_API service_publish this options) = [service] \<and>
            (result_of (build new_API service_publish this options) = Fulfilled service
               \<longleftrightarrow> service_publish service = Fulfilled ()) \<and>
            (\<forall>e. service_publish service = Rejected e \<longrightarrow>
               result_of (build new_API service_publish this options) = Rejected e)) \<and>
         (\<not> truthy (publish options) \<longrightarrow>
            publish_calls (build new_API service_publish this options) = [] \<and>
            result_of (build new_API service_publish this options) = Fulfilled service)"
  using assms
  by (auto simp: build_def await_def result_of_def publish_calls_def Let_def split: promise.splits)

text \<open>
  With \<^verbatim>\<open>publish: true\<close> and a \<^verbatim>\<open>publish\<close> that is rejected with \<^verbatim>\<open>AccessDenied\<close>,
  \<^verbatim>\<open>build\<close> is rejected with \<^verbatim>\<open>AccessDenied\<close> after one call; with a \<^verbatim>\<open>publish\<close> that is
  fulfilled, \<^verbatim>\<open>build\<close> is fulfilled with the service after one call; with
  \<^verbatim>\<open>publish: false\<close> there is no call.
\<close>

theorem build_publish_witness:
  "result_of (build options_as_service publish_rejects widgets_api \<lparr>publish = JBool True, api = None\<rparr>) =
     Rejected ''AccessDenied'' \<and>
   publish_calls (build options_as_service publish_rejects widgets_api \<lparr>publish = JBool True, api = None\<rparr>) =
     [\<lparr>publish = JBool True, api = Some widgets_api\<rparr>] \<and>
   result_of (build options_as_service publish_fulfils widgets_api \<lparr>publish = JBool True, api = None\<rparr>) =
     Fulfilled \<lparr>publish = JBool True, api = Some widgets_api\<rparr> \<and>
   publish_calls (build options_as_service publish_rejects widgets_api \<lparr>publish = JBool False, api = None\<rparr>) = []"
proof -
  have made: "options_as_service (\<lparr>publish = JBool True, api = None\<rparr>\<lparr>api := Some widgets_api\<rparr>) =
      Inr \<lparr>publish = JBool True, api = Some widgets_api\<rparr>"
    by (simp add: options_as_service_def)
  have made': "options_as_service (\<lparr>publish = JBool False, api = None\<rparr>\<lparr>api := Some widgets_api\<rparr>) =
      Inr \<lparr>publish = JBool False, api = Some widgets_api\<rparr>"
    by (simp add: options_as_service_def)
  from made made'
    build_publish[where new_API = options_as_service and this = widgets_api
      and options = "\<lparr>publish = JBool True, api = None\<rparr>"
      and service = "\<lparr>publish = JBool True, api = Some widgets_api\<rparr>"
      and service_publish = publish_rejects]
    build_publish[where new_API = options_as_service and this = widgets_api
      and options = "\<lparr>publish = JBool True, api = None\<rparr>"
      and service = "\<lparr>publish = JBool True, api = Some widgets_api\<rparr>"
      and service_publish = publish_fulfils]
    build_publish[where new_API = options_as_service and this = widgets_api
      and options = "\<lparr>publish = JBool False, api = None\<rparr>"
      and service = "\<lparr>publish = JBool False, api = Some widgets_api\<rparr>"
      and service_publish = publish_rejects]
  show ?thesis
    by (simp add: publish_rejects_def publish_fulfils_def)
qed

end
